theory Spec2Isabelle
  imports Complex_Main
begin

section \<open>JavaScript numbers\<close>

text \<open>
  Prices, price modifiers and totals are JavaScript numbers, that is IEEE 754 binary64
  values, and the handlers add, multiply and compare them.  A finite value is kept as an
  integer mantissa times a power of two, \<open>Fin m e\<close> for \<open>m * 2 ^ e\<close>, with an odd mantissa
  (or \<open>Fin 0 0\<close> for zero, the two zeros being identified: no handler divides by a total or
  prints its sign).  Every operation computes the exact result on integers and rounds it to
  53 bits, ties to even, with gradual underflow below \<open>2 ^ -1022\<close> and overflow to infinity.
\<close>

datatype double = Fin int int | PInf | NInf | NaN

text \<open>The number of bits of a positive integer.\<close>

function bits :: "int \<Rightarrow> int" where
  "bits m = (if m \<le> 0 then 0 else 1 + bits (m div 2))"
  by pat_completeness auto
termination
  by (relation "measure nat") auto

declare bits.simps [simp del]

text \<open>The normal form: trailing zero bits of the mantissa go into the exponent.\<close>

function strip :: "int \<Rightarrow> int \<Rightarrow> int \<times> int" where
  "strip m e = (if m \<le> 0 then (0, 0) else if even m then strip (m div 2) (e + 1) else (m, e))"
  by pat_completeness auto
termination
  by (relation "measure (\<lambda>(m, e). nat m)") auto

declare strip.simps [simp del]

text \<open>Dropping the \<open>k\<close> low bits of \<open>m\<close>, to the nearest, a tie to the even neighbour.\<close>

definition round_even :: "int \<Rightarrow> int \<Rightarrow> int" where
  "round_even m k =
     (if k \<le> 0 then m
      else
        (let q = m div 2 ^ nat k; r = m mod 2 ^ nat k; half = 2 ^ nat (k - 1)
         in if r > half \<or> (r = half \<and> odd q) then q + 1 else q))"

text \<open>The double nearest to \<open>\<plusminus> m * 2 ^ e\<close> for a magnitude \<open>m \<ge> 0\<close>: at most 53 bits, no bit
  below \<open>2 ^ -1074\<close>, infinity from \<open>2 ^ 1024\<close> on.\<close>

definition mk :: "bool \<Rightarrow> int \<Rightarrow> int \<Rightarrow> double" where
  "mk negative m e =
     (let k = max 0 (max (bits m - 53) (- 1074 - e));
          q = round_even m k;
          e' = e + k
      in if bits q + e' > 1024 then (if negative then NInf else PInf)
         else (case strip q e' of (m', e'') \<Rightarrow> Fin (if negative then - m' else m') e''))"

text \<open>\<open>a + b\<close>.\<close>

definition dadd :: "double \<Rightarrow> double \<Rightarrow> double" where
  "dadd a b =
     (case (a, b) of
        (NaN, _) \<Rightarrow> NaN
      | (_, NaN) \<Rightarrow> NaN
      | (PInf, NInf) \<Rightarrow> NaN
      | (NInf, PInf) \<Rightarrow> NaN
      | (PInf, _) \<Rightarrow> PInf
      | (_, PInf) \<Rightarrow> PInf
      | (NInf, _) \<Rightarrow> NInf
      | (_, NInf) \<Rightarrow> NInf
      | (Fin m1 e1, Fin m2 e2) \<Rightarrow>
          (let e = min e1 e2;
               s = m1 * 2 ^ nat (e1 - e) + m2 * 2 ^ nat (e2 - e)
           in mk (s < 0) \<bar>s\<bar> e))"

text \<open>\<open>a * b\<close>.\<close>

definition dmul :: "double \<Rightarrow> double \<Rightarrow> double" where
  "dmul a b =
     (case (a, b) of
        (NaN, _) \<Rightarrow> NaN
      | (_, NaN) \<Rightarrow> NaN
      | (Fin m1 e1, Fin m2 e2) \<Rightarrow> mk ((m1 < 0) \<noteq> (m2 < 0)) \<bar>m1 * m2\<bar> (e1 + e2)
      | (Fin m e, y) \<Rightarrow>
          (if m = 0 then NaN else if (m < 0) = (y = NInf) then PInf else NInf)
      | (x, Fin m e) \<Rightarrow>
          (if m = 0 then NaN else if (m < 0) = (x = NInf) then PInf else NInf)
      | (x, y) \<Rightarrow> (if x = y then PInf else NInf))"

text \<open>\<open>a >= b\<close>.\<close>

definition dge :: "double \<Rightarrow> double \<Rightarrow> bool" where
  "dge a b =
     (case (a, b) of
        (NaN, _) \<Rightarrow> False
      | (_, NaN) \<Rightarrow> False
      | (PInf, _) \<Rightarrow> True
      | (_, NInf) \<Rightarrow> True
      | (NInf, _) \<Rightarrow> False
      | (_, PInf) \<Rightarrow> False
      | (Fin m1 e1, Fin m2 e2) \<Rightarrow>
          (let e = min e1 e2 in m1 * 2 ^ nat (e1 - e) \<ge> m2 * 2 ^ nat (e2 - e)))"

text \<open>An integer count (a quantity) as a number.\<close>

definition of_count :: "int \<Rightarrow> double" where
  "of_count n = mk (n < 0) \<bar>n\<bar> 0"

text \<open>
  The decimal literal \<open>p * 10 ^ -k\<close>, as a source literal or a JSON number is read: the
  nearest double.  The quotient is taken to at least 55 bits and a sticky bit records a
  remainder, so that the one rounding of \<open>mk\<close> is the correct one.
\<close>

definition dec :: "int \<Rightarrow> nat \<Rightarrow> double" where
  "dec p k =
     (if p = 0 then Fin 0 0
      else
        (let a = \<bar>p\<bar>; q = 10 ^ k;
             s = 55 + bits q - bits a;
             num = (if s \<ge> 0 then a * 2 ^ nat s else a);
             den = (if s \<ge> 0 then q else q * 2 ^ nat (- s));
             n = num div den; r = num mod den
         in mk (p < 0) (2 * n + (if r = 0 then 0 else 1)) (- s - 1)))"

text \<open>\<open>x || 0\<close> on a number that may be undefined: undefined, zero and NaN give 0.\<close>

definition or_zero :: "double option \<Rightarrow> double" where
  "or_zero x =
     (case x of
        None \<Rightarrow> dec 0 0
      | Some d \<Rightarrow> if d = Fin 0 0 \<or> d = NaN then dec 0 0 else d)"

section \<open>Data model\<close>

text \<open>
  The backend is an Express application over a document store.  Documents are records,
  collections are maps from document ids to documents, and every route handler is a
  function from the request and the store to a reply and the new store.  Counts (stock,
  quantity) are integers, on which JavaScript's arithmetic is exact up to \<open>2 ^ 53\<close>; a
  product's rating is a real number.  Only the fields that the handlers of
  \<open>routes/orders.js\<close>, \<open>routes/cart.js\<close>, \<open>routes/reviews.js\<close> and \<open>models/Review.js\<close> read
  or write are kept.
\<close>

type_synonym object_id = string

text \<open>\<open>models/Product.js\<close>: a variant is a subdocument of its product, with an id of its own
  and a price modifier (default 0).\<close>

record product_variant =
  pv_id :: object_id
  pv_priceModifier :: double

text \<open>\<open>models/Product.js\<close>: name, price, stock (validated \<open>min: 0\<close> on save), the variants,
  the owning merchant (optional), and the derived rating and reviewCount.\<close>

record product =
  name :: string
  price :: double
  stock :: int
  variants :: "product_variant list"
  merchant :: "object_id option"
  rating :: real
  reviewCount :: int

text \<open>
  Modelled from the spec: the Cart and Order schemas are not in the sources.  A cart line
  holds a product reference, a quantity (a number, at least 1) and an optional variant
  reference; the add handler stores the variant id that the request sends.  An order item
  holds the same three and the recorded price.
\<close>

record cart_item =
  ci_id :: object_id
  ci_product :: object_id
  ci_quantity :: int
  ci_variant :: "object_id option"

record order_item =
  oi_product :: object_id
  oi_quantity :: int
  oi_variant :: "object_id option"
  oi_price :: double

record order =
  o_user :: object_id
  o_items :: "order_item list"
  o_shippingAddress :: string
  o_billingAddress :: string
  o_paymentMethod :: string
  o_subtotal :: double
  o_discount :: double
  o_shipping :: double
  o_tax :: double
  o_total :: double
  o_status :: string
  o_trackingNumber :: "string option"
  o_estimatedDelivery :: "string option"

record review =
  r_id :: object_id
  r_product :: object_id
  r_user :: object_id
  r_rating :: int
  r_comment :: string

text \<open>The authenticated caller, as \<open>protect\<close> attaches it to the request.\<close>

record user =
  user_id :: object_id
  role :: string

text \<open>The store: products and orders by id, one cart per user id, and the reviews.\<close>

record shop =
  products :: "object_id \<rightharpoonup> product"
  carts :: "object_id \<rightharpoonup> cart_item list"
  orders :: "object_id \<rightharpoonup> order"
  reviews :: "review list"

text \<open>A failed reply: the HTTP status and the message of the JSON envelope.\<close>

datatype failure = Failure (http_status: nat) (message: string)

text \<open>
  An exception that a handler's \<open>catch\<close> passes to \<open>next(error)\<close>: a TypeError of the runtime
  or a ValidationError of the object mapper, with its message.  Neither has a \<open>status\<close>
  property.
\<close>

datatype js_error = TypeError string | ValidationError string

definition err_status :: "js_error \<Rightarrow> nat option" where
  "err_status err = None"

definition err_message :: "js_error \<Rightarrow> string" where
  "err_message err = (case err of TypeError m \<Rightarrow> m | ValidationError m \<Rightarrow> m)"

text \<open>The error handling middleware of the server file:
  \<open>res.status(err.status || 500)\<close> with \<open>message: err.message || 'Internal Server Error'\<close>.\<close>

definition error_middleware :: "js_error \<Rightarrow> failure" where
  "error_middleware err =
     Failure
       (case err_status err of None \<Rightarrow> 500 | Some s \<Rightarrow> if s = 0 then 500 else s)
       (if err_message err = [] then ''Internal Server Error'' else err_message err)"

section \<open>Request values\<close>

text \<open>
  A quantity in a request body: \<open>express.json\<close> yields a number or a string,
  \<open>express.urlencoded\<close> always a string, and the validator \<open>isInt\<close> checks the value without
  converting it.
\<close>

datatype json_count = Num int | Str string

text \<open>The value of a decimal digit.\<close>

definition digit_value :: "char \<Rightarrow> int option" where
  "digit_value c = map_of (zip ''0123456789'' [0, 1, 2, 3, 4, 5, 6, 7, 8, 9]) c"

text \<open>The value of a non-empty string of decimal digits.\<close>

fun digits_value :: "string \<Rightarrow> int \<Rightarrow> int option" where
  "digits_value [] acc = Some acc"
| "digits_value (c # cs) acc =
     (case digit_value c of None \<Rightarrow> None | Some d \<Rightarrow> digits_value cs (10 * acc + d))"

text \<open>
  The strings of the validator's pattern \<open>/^[-+]?[0-9]+$/\<close>, with their value.  On these
  strings, and on a string of digits followed by one of them, this is also \<open>Number(s)\<close>,
  \<open>None\<close> standing for NaN.
\<close>

definition int_string :: "string \<Rightarrow> int option" where
  "int_string s =
     (case s of
        [] \<Rightarrow> None
      | c # cs \<Rightarrow>
          if c = CHR ''-'' then (if cs = [] then None else map_option uminus (digits_value cs 0))
          else if c = CHR ''+'' then (if cs = [] then None else digits_value cs 0)
          else digits_value s 0)"

text \<open>\<open>String(n)\<close> of an integer below \<open>10 ^ 21\<close> in magnitude: its decimal digits.\<close>

function digits_of :: "int \<Rightarrow> string" where
  "digits_of n =
     (if n < 10 then [''0123456789'' ! nat n]
      else digits_of (n div 10) @ [''0123456789'' ! nat (n mod 10)])"
  by pat_completeness auto
termination
  by (relation "measure nat") auto

declare digits_of.simps [simp del]

definition string_of_count :: "int \<Rightarrow> string" where
  "string_of_count n = (if n < 0 then CHR ''-'' # digits_of (- n) else digits_of n)"

text \<open>
  \<open>isInt({ min: 1 })\<close>: the value is turned into a string and matched against the pattern,
  and \<open>str >= 1\<close> is tested.  A number from \<open>10 ^ 21\<close> on is printed with an exponent and
  fails.
\<close>

definition isInt_min1 :: "json_count \<Rightarrow> bool" where
  "isInt_min1 q =
     (case q of
        Num n \<Rightarrow> 1 \<le> n \<and> n < 10 ^ 21
      | Str s \<Rightarrow> (case int_string s of None \<Rightarrow> False | Some n \<Rightarrow> 1 \<le> n))"

text \<open>\<open>product.stock < quantity\<close>: a string is converted to a number, and a comparison with
  NaN is false.\<close>

definition stock_below :: "int \<Rightarrow> json_count \<Rightarrow> bool" where
  "stock_below s q =
     (case q of
        Num n \<Rightarrow> s < n
      | Str t \<Rightarrow> (case int_string t of None \<Rightarrow> False | Some n \<Rightarrow> s < n))"

text \<open>\<open>old + quantity\<close> for a stored quantity \<open>old\<close>: numbers are added, a string is appended
  to the digits of \<open>old\<close>.\<close>

definition js_plus :: "int \<Rightarrow> json_count \<Rightarrow> json_count" where
  "js_plus old q =
     (case q of
        Num n \<Rightarrow> Num (old + n)
      | Str s \<Rightarrow> Str (string_of_count old @ s))"

text \<open>Assigning to the quantity of a cart line casts the value to a number; a string that
  is not a number is a cast error, and saving the cart then fails.\<close>

definition cast_number :: "json_count \<Rightarrow> int option" where
  "cast_number q = (case q of Num n \<Rightarrow> Some n | Str s \<Rightarrow> int_string s)"

section \<open>Shared helpers\<close>

text \<open>\<open>.populate('items.product')\<close>: each line with the product document it refers to, or
  null when that product no longer exists.\<close>

definition populate_product ::
  "(object_id \<rightharpoonup> product) \<Rightarrow> cart_item list \<Rightarrow> (cart_item \<times> product option) list" where
  "populate_product db its = map (\<lambda>item. (item, db (ci_product item))) its"

text \<open>\<open>product.save()\<close>: the schema validator \<open>stock: min 0\<close> rejects a negative stock.\<close>

definition save_product ::
  "(object_id \<rightharpoonup> product) \<Rightarrow> object_id \<Rightarrow> product \<Rightarrow> (object_id \<rightharpoonup> product) option" where
  "save_product db pid p = (if stock p < 0 then None else Some (db(pid \<mapsto> p)))"

section \<open>GET /api/cart\<close>

text \<open>
  A cart line after \<open>.populate('items.product').populate('items.variant')\<close>.  What a variant
  reference is populated with depends on the Cart schema, which is not in the sources: it
  is the parameter \<open>resolve\<close> of the handler, null when nothing is found.
\<close>

record populated_item =
  p_item :: cart_item
  p_product :: "product option"
  p_variant :: "product_variant option"

definition populate_cart ::
  "(object_id \<rightharpoonup> product) \<Rightarrow> (object_id \<Rightarrow> product_variant option) \<Rightarrow> cart_item list
     \<Rightarrow> populated_item list" where
  "populate_cart db resolve its =
     map (\<lambda>item. \<lparr>p_item = item, p_product = db (ci_product item),
                    p_variant = (case ci_variant item of None \<Rightarrow> None | Some v \<Rightarrow> resolve v)\<rparr>)
       its"

text \<open>\<open>calculateCartTotals\<close>: the \<open>forEach\<close> loop with its running subtotal.  Reading
  \<open>item.product.price\<close> of a line whose product is null throws.\<close>

fun calculateCartTotals :: "populated_item list \<Rightarrow> double \<Rightarrow> js_error + double" where
  "calculateCartTotals [] subtotal = Inr subtotal"
| "calculateCartTotals (item # rest) subtotal =
     (case p_product item of
        None \<Rightarrow> Inl (TypeError ''Cannot read properties of null'')
      | Some p \<Rightarrow>
          (let unit = dadd (price p) (or_zero (map_option pv_priceModifier (p_variant item)))
           in calculateCartTotals rest
                (dadd subtotal (dmul unit (of_count (ci_quantity (p_item item)))))))"

record cart_view =
  cv_items :: "populated_item list"
  cv_subtotal :: double
  cv_discount :: double
  cv_shipping :: double
  cv_tax :: double
  cv_total :: double

definition get_cart ::
  "user \<Rightarrow> (object_id \<Rightarrow> product_variant option) \<Rightarrow> shop \<Rightarrow> (failure + cart_view) \<times> shop" where
  "get_cart u resolve st =
     (let (its, st') =
            (case carts st (user_id u) of
               None \<Rightarrow> ([], st\<lparr>carts := (carts st)(user_id u \<mapsto> [])\<rparr>)
             | Some c \<Rightarrow> (c, st));
          populated = populate_cart (products st') resolve its
      in case calculateCartTotals populated (dec 0 0) of
           Inl err \<Rightarrow> (Inl (error_middleware err), st')
         | Inr subtotal \<Rightarrow>
             (let discount = dec 0 0;
                  shipping = (if dge subtotal (dec 100 0) then dec 0 0 else dec 999 2);
                  tax = dmul subtotal (dec 8 2);
                  total = dadd (dadd subtotal shipping) tax
              in (Inr \<lparr>cv_items = populated, cv_subtotal = subtotal, cv_discount = discount,
                       cv_shipping = shipping, cv_tax = tax, cv_total = total\<rparr>, st')))"

section \<open>POST /api/orders\<close>

record order_body =
  shippingAddress :: "string option"
  billingAddress :: "string option"
  paymentMethod :: string

text \<open>Modelled from the spec: the Order schema is not in the sources; a new order starts in
  status \<open>pending\<close>.\<close>

definition initial_status :: string where
  "initial_status = ''pending''"

text \<open>
  \<open>item.variant?.priceModifier\<close> in the order handler.  The cart is loaded with
  \<open>.populate('items.product')\<close> only, so \<open>item.variant\<close> is the stored reference or absent,
  and a reference has no \<open>priceModifier\<close> property: the result is undefined.
\<close>

definition unpopulated_priceModifier :: "object_id option \<Rightarrow> double option" where
  "unpopulated_priceModifier v = None"

text \<open>
  The loop over the populated cart lines: look the product up again, check its stock, add
  the line to the running subtotal and to \<open>orderItems\<close>, then decrement the stock and save
  the product, all before the next line is looked at.  The product store is returned on
  every path, since the saves of earlier lines stay when a later line returns early.
\<close>

fun order_lines ::
  "(object_id \<rightharpoonup> product) \<Rightarrow> (cart_item \<times> product option) list \<Rightarrow> double \<Rightarrow> order_item list
     \<Rightarrow> (failure + double \<times> order_item list) \<times> (object_id \<rightharpoonup> product)" where
  "order_lines db [] subtotal orderItems = (Inr (subtotal, orderItems), db)"
| "order_lines db ((item, populated) # rest) subtotal orderItems =
     (case populated of
        None \<Rightarrow> (Inl (error_middleware (TypeError ''Cannot read properties of null'')), db)
      | Some _ \<Rightarrow>
          (case db (ci_product item) of
             None \<Rightarrow> (Inl (Failure 404 (''Product '' @ ci_product item @ '' not found'')), db)
           | Some p \<Rightarrow>
               if stock p < ci_quantity item
               then (Inl (Failure 400 (''Insufficient stock for '' @ name p)), db)
               else
                 (let unit = dadd (price p)
                               (or_zero (unpopulated_priceModifier (ci_variant item)));
                      subtotal' = dadd subtotal (dmul unit (of_count (ci_quantity item)));
                      orderItems' = orderItems @
                        [\<lparr>oi_product = ci_product item, oi_quantity = ci_quantity item,
                          oi_variant = ci_variant item, oi_price = price p\<rparr>]
                  in case save_product db (ci_product item)
                            (p\<lparr>stock := stock p - ci_quantity item\<rparr>) of
                       None \<Rightarrow>
                         (Inl (error_middleware (ValidationError ''Product validation failed'')),
                          db)
                     | Some db' \<Rightarrow> order_lines db' rest subtotal' orderItems')))"

text \<open>The handler.  \<open>oid\<close> is the id the database gives the new order.\<close>

definition create_order :: "user \<Rightarrow> order_body \<Rightarrow> object_id \<Rightarrow> shop \<Rightarrow> (failure + order) \<times> shop" where
  "create_order u body oid st =
     (case shippingAddress body of
        None \<Rightarrow> (Inl (Failure 400 ''Validation error''), st)
      | Some address \<Rightarrow>
          if paymentMethod body = [] then (Inl (Failure 400 ''Validation error''), st)
          else
            (case carts st (user_id u) of
               None \<Rightarrow> (Inl (Failure 400 ''Cart is empty''), st)
             | Some its \<Rightarrow>
                 if length its = 0 then (Inl (Failure 400 ''Cart is empty''), st)
                 else
                   (case order_lines (products st) (populate_product (products st) its)
                           (dec 0 0) [] of
                      (Inl e, db) \<Rightarrow> (Inl e, st\<lparr>products := db\<rparr>)
                    | (Inr (subtotal, orderItems), db) \<Rightarrow>
                        (let discount = dec 0 0;
                             shipping = (if dge subtotal (dec 100 0) then dec 0 0 else dec 999 2);
                             tax = dmul subtotal (dec 8 2);
                             total = dadd (dadd subtotal shipping) tax;
                             created =
                               \<lparr>o_user = user_id u, o_items = orderItems,
                                o_shippingAddress = address,
                                o_billingAddress =
                                  (case billingAddress body of None \<Rightarrow> address | Some b \<Rightarrow> b),
                                o_paymentMethod = paymentMethod body,
                                o_subtotal = subtotal, o_discount = discount,
                                o_shipping = shipping, o_tax = tax, o_total = total,
                                o_status = initial_status,
                                o_trackingNumber = None, o_estimatedDelivery = None\<rparr>
                         in (Inr created,
                             st\<lparr>products := db,
                                orders := (orders st)(oid \<mapsto> created),
                                carts := (carts st)(user_id u \<mapsto> [])\<rparr>)))))"

section \<open>POST /api/cart/items and PUT /api/cart/items/:itemId\<close>

record add_body =
  productId :: string
  quantity :: json_count
  variant :: "string option"

text \<open>\<open>Array.prototype.findIndex\<close>; \<open>None\<close> stands for the result -1.\<close>

fun findIndex :: "('a \<Rightarrow> bool) \<Rightarrow> 'a list \<Rightarrow> nat option" where
  "findIndex P [] = None"
| "findIndex P (x # xs) = (if P x then Some 0 else map_option Suc (findIndex P xs))"

text \<open>\<open>!variant\<close>: the field is missing or the empty string.\<close>

definition no_variant :: "string option \<Rightarrow> bool" where
  "no_variant v \<longleftrightarrow> (case v of None \<Rightarrow> True | Some s \<Rightarrow> s = [])"

text \<open>The predicate handed to \<open>findIndex\<close>:
  \<open>item.product.toString() === productId && (!variant || item.variant?.toString() === variant)\<close>.\<close>

definition same_line :: "string \<Rightarrow> string option \<Rightarrow> cart_item \<Rightarrow> bool" where
  "same_line pid v item \<longleftrightarrow> ci_product item = pid \<and> (no_variant v \<or> ci_variant item = v)"

text \<open>\<open>Cart.findOne\<close> followed by \<open>Cart.create\<close> with no items when the user has no cart.\<close>

definition find_or_create_cart :: "object_id \<Rightarrow> shop \<Rightarrow> cart_item list \<times> shop" where
  "find_or_create_cart uid st =
     (case carts st uid of
        None \<Rightarrow> ([], st\<lparr>carts := (carts st)(uid \<mapsto> [])\<rparr>)
      | Some c \<Rightarrow> (c, st))"

text \<open>
  The merge-or-push step of the add handler: \<open>cart.items[i].quantity += quantity\<close> on the
  line found, or the push of a new line.  \<open>lid\<close> is the id the database gives a pushed line.
  \<open>None\<close> is a quantity that cannot be cast to a number.
\<close>

definition add_to_lines ::
  "add_body \<Rightarrow> object_id \<Rightarrow> cart_item list \<Rightarrow> cart_item list option" where
  "add_to_lines body lid its =
     (case findIndex (same_line (productId body) (variant body)) its of
        Some existingItemIndex \<Rightarrow>
          (case cast_number
                  (js_plus (ci_quantity (its ! existingItemIndex)) (quantity body)) of
             None \<Rightarrow> None
           | Some q \<Rightarrow>
               Some (its[existingItemIndex := (its ! existingItemIndex)\<lparr>ci_quantity := q\<rparr>]))
      | None \<Rightarrow>
          (case cast_number (quantity body) of
             None \<Rightarrow> None
           | Some q \<Rightarrow>
               Some (its @
                 [\<lparr>ci_id = lid, ci_product = productId body, ci_quantity = q,
                   ci_variant = (if no_variant (variant body) then None else variant body)\<rparr>])))"

text \<open>The add handler.  The reply carries the lines of the saved cart, populated with their
  products.\<close>

definition add_item ::
  "user \<Rightarrow> add_body \<Rightarrow> object_id \<Rightarrow> shop \<Rightarrow> (failure + (cart_item \<times> product option) list) \<times> shop" where
  "add_item u body lid st =
     (if productId body = [] \<or> \<not> isInt_min1 (quantity body)
      then (Inl (Failure 400 ''Validation error''), st)
      else
        (case products st (productId body) of
           None \<Rightarrow> (Inl (Failure 404 ''Product not found''), st)
         | Some p \<Rightarrow>
             if stock_below (stock p) (quantity body)
             then (Inl (Failure 400 ''Insufficient stock''), st)
             else
               (let (its, st1) = find_or_create_cart (user_id u) st
                in case add_to_lines body lid its of
                     None \<Rightarrow>
                       (Inl (error_middleware (ValidationError ''Cart validation failed'')), st1)
                   | Some its' \<Rightarrow>
                       (let st2 = st1\<lparr>carts := (carts st1)(user_id u \<mapsto> its')\<rparr>
                        in (Inr (populate_product (products st2) its'), st2)))))"

text \<open>The update handler.  \<open>cart.items.id(itemId)\<close> is the first line with that id;
  \<open>product.stock\<close> of a product that no longer exists throws.\<close>

definition update_item ::
  "user \<Rightarrow> object_id \<Rightarrow> json_count \<Rightarrow> shop
     \<Rightarrow> (failure + (cart_item \<times> product option) list) \<times> shop" where
  "update_item u itemId qty st =
     (if \<not> isInt_min1 qty then (Inl (Failure 400 ''Validation error''), st)
      else
        (case carts st (user_id u) of
           None \<Rightarrow> (Inl (Failure 404 ''Cart not found''), st)
         | Some its \<Rightarrow>
             (case findIndex (\<lambda>item. ci_id item = itemId) its of
                None \<Rightarrow> (Inl (Failure 404 ''Item not found in cart''), st)
              | Some i \<Rightarrow>
                  (case products st (ci_product (its ! i)) of
                     None \<Rightarrow>
                       (Inl (error_middleware (TypeError ''Cannot read properties of null'')), st)
                   | Some p \<Rightarrow>
                       if stock_below (stock p) qty
                       then (Inl (Failure 400 ''Insufficient stock''), st)
                       else
                         (case cast_number qty of
                            None \<Rightarrow>
                              (Inl (error_middleware
                                      (ValidationError ''Cart validation failed'')), st)
                          | Some q \<Rightarrow>
                              (let its' = its[i := (its ! i)\<lparr>ci_quantity := q\<rparr>];
                                   st' = st\<lparr>carts := (carts st)(user_id u \<mapsto> its')\<rparr>
                               in (Inr (populate_product (products st') its'), st')))))))"

section \<open>PUT /api/orders/:id/cancel\<close>



section \<open>PUT /api/orders/:id/status\<close>

text \<open>Modelled from the spec: the \<open>authorize\<close> middleware (\<open>middleware/auth.js\<close>, not in the
  sources) lets the request through when the caller's role is one of the allowed roles and
  answers 403 otherwise.\<close>

definition authorize :: "string list \<Rightarrow> user \<Rightarrow> failure option" where
  "authorize roles u = (if role u \<in> set roles then None else Some (Failure 403 ''Forbidden''))"

record status_body =
  status :: string
  trackingNumber :: "string option"
  estimatedDelivery :: "string option"

text \<open>The list of the \<open>isIn\<close> validator.\<close>

definition status_values :: "string list" where
  "status_values =
     [''pending'', ''confirmed'', ''processing'', ''shipped'', ''delivered'', ''cancelled'',
      ''returned'']"

text \<open>The callback of \<open>order.items.some\<close>, on an item whose product is populated:
  \<open>productMerchantId\<close> stays null for a missing product or a missing merchant.\<close>

definition is_merchant_item :: "(object_id \<rightharpoonup> product) \<Rightarrow> object_id \<Rightarrow> order_item \<Rightarrow> bool" where
  "is_merchant_item db merchantId item =
     (case db (oi_product item) of
        None \<Rightarrow> False
      | Some p \<Rightarrow>
          (let productMerchantId = (case merchant p of None \<Rightarrow> None | Some m \<Rightarrow> Some m)
           in productMerchantId = Some merchantId))"

text \<open>\<open>if (req.body.field)\<close>: a missing or empty string leaves the stored value.\<close>

definition or_keep :: "string option \<Rightarrow> string option \<Rightarrow> string option" where
  "or_keep new old = (case new of None \<Rightarrow> old | Some s \<Rightarrow> if s = [] then old else Some s)"

definition update_status ::
  "user \<Rightarrow> object_id \<Rightarrow> status_body \<Rightarrow> shop \<Rightarrow> (failure + order) \<times> shop" where
  "update_status u oid body st =
     (case authorize [''admin'', ''merchant''] u of
        Some e \<Rightarrow> (Inl e, st)
      | None \<Rightarrow>
          if status body \<notin> set status_values then (Inl (Failure 400 ''Validation error''), st)
          else
            (case orders st oid of
               None \<Rightarrow> (Inl (Failure 404 ''Order not found''), st)
             | Some ord \<Rightarrow>
                 if role u = ''merchant'' \<and>
                    \<not> list_ex (is_merchant_item (products st) (user_id u)) (o_items ord)
                 then (Inl (Failure 403
                   ''Not authorized to update this order. Order does not contain your products.''),
                   st)
                 else
                   (let ord' = ord
                          \<lparr>o_status := status body,
                           o_trackingNumber := or_keep (trackingNumber body) (o_trackingNumber ord),
                           o_estimatedDelivery :=
                             or_keep (estimatedDelivery body) (o_estimatedDelivery ord)\<rparr>
                    in (Inr ord', st\<lparr>orders := (orders st)(oid \<mapsto> ord')\<rparr>))))"

section \<open>Reviews\<close>

text \<open>\<open>Math.round\<close> rounds to the nearest integer, a half upwards.\<close>

definition js_round :: "real \<Rightarrow> int" where
  "js_round x = \<lfloor>x + 1 / 2\<rfloor>"

text \<open>\<open>Model.findByIdAndUpdate\<close> on the rating fields: nothing happens when the product is
  gone.\<close>

definition set_rating :: "object_id \<Rightarrow> real \<Rightarrow> int \<Rightarrow> shop \<Rightarrow> shop" where
  "set_rating pid r n st =
     (case products st pid of
        None \<Rightarrow> st
      | Some p \<Rightarrow> st\<lparr>products := (products st)(pid \<mapsto> p\<lparr>rating := r, reviewCount := n\<rparr>)\<rparr>)"

text \<open>\<open>reviewSchema.statics.updateProductRating\<close>.\<close>

definition updateProductRating :: "object_id \<Rightarrow> shop \<Rightarrow> shop" where
  "updateProductRating pid st =
     (let found = filter (\<lambda>r. r_product r = pid) (reviews st)
      in if length found = 0 then set_rating pid 0 0 st
         else
           (let totalRating = foldl (\<lambda>sum r. sum + r_rating r) 0 found;
                averageRating = real_of_int totalRating / real (length found);
                count = int (length found)
            in set_rating pid (real_of_int (js_round (averageRating * 10)) / 10) count st))"

record review_body =
  rv_productId :: string
  rv_rating :: int
  rv_comment :: "string option"

text \<open>POST /api/reviews.  \<open>rid\<close> is the id the database gives the new review; the
  \<open>post('save')\<close> hook runs right after the insert.\<close>

definition create_review ::
  "user \<Rightarrow> review_body \<Rightarrow> object_id \<Rightarrow> shop \<Rightarrow> (failure + review) \<times> shop" where
  "create_review u body rid st =
     (if rv_productId body = [] \<or> rv_rating body < 1 \<or> rv_rating body > 5
      then (Inl (Failure 400 ''Validation error''), st)
      else
        (case products st (rv_productId body) of
           None \<Rightarrow> (Inl (Failure 404 ''Product not found''), st)
         | Some _ \<Rightarrow>
             (case find (\<lambda>r. r_product r = rv_productId body \<and> r_user r = user_id u)
                     (reviews st) of
                Some existingReview \<Rightarrow>
                  (Inl (Failure 400 ''You have already reviewed this product''), st)
              | None \<Rightarrow>
                  (let created =
                         \<lparr>r_id = rid, r_product = rv_productId body, r_user = user_id u,
                          r_rating = rv_rating body,
                          r_comment = (case rv_comment body of None \<Rightarrow> [] | Some c \<Rightarrow> c)\<rparr>;
                       st1 = st\<lparr>reviews := reviews st @ [created]\<rparr>
                   in (Inr created, updateProductRating (r_product created) st1)))))"

text \<open>PUT /api/reviews/:id.  Both fields are optional; \<open>review.save()\<close> runs the
  \<open>post('save')\<close> hook.\<close>

definition update_review ::
  "user \<Rightarrow> object_id \<Rightarrow> int option \<Rightarrow> string option \<Rightarrow> shop \<Rightarrow> (failure + review) \<times> shop" where
  "update_review u rid new_rating new_comment st =
     (if (case new_rating of None \<Rightarrow> False | Some r \<Rightarrow> r < 1 \<or> r > 5)
      then (Inl (Failure 400 ''Validation error''), st)
      else
        (case findIndex (\<lambda>r. r_id r = rid) (reviews st) of
           None \<Rightarrow> (Inl (Failure 404 ''Review not found''), st)
         | Some i \<Rightarrow>
             (let old = reviews st ! i
              in if r_user old \<noteq> user_id u
                 then (Inl (Failure 403 ''Not authorized to update this review''), st)
                 else
                   (let r1 = (case new_rating of
                                None \<Rightarrow> old
                              | Some r \<Rightarrow> if r = 0 then old else old\<lparr>r_rating := r\<rparr>);
                        r2 = (case new_comment of
                                None \<Rightarrow> r1
                              | Some c \<Rightarrow> r1\<lparr>r_comment := c\<rparr>);
                        st1 = st\<lparr>reviews := (reviews st)[i := r2]\<rparr>
                    in (Inr r2, updateProductRating (r_product r2) st1)))))"

text \<open>DELETE /api/reviews/:id.  \<open>findByIdAndDelete\<close> removes the document and hands it to the
  \<open>post('findOneAndDelete')\<close> hook.\<close>

definition delete_review :: "user \<Rightarrow> object_id \<Rightarrow> shop \<Rightarrow> (failure + unit) \<times> shop" where
  "delete_review u rid st =
     (case findIndex (\<lambda>r. r_id r = rid) (reviews st) of
        None \<Rightarrow> (Inl (Failure 404 ''Review not found''), st)
      | Some i \<Rightarrow>
          (let doc = reviews st ! i
           in if r_user doc \<noteq> user_id u
              then (Inl (Failure 403 ''Not authorized to delete this review''), st)
              else
                (let st1 = st\<lparr>reviews := take i (reviews st) @ drop (Suc i) (reviews st)\<rparr>
                 in (Inr (), updateProductRating (r_product doc) st1))))"

section \<open>What the specification states, as definitions of its own\<close>

text \<open>The variant of a product that a cart line refers to: the entry of the product's
  \<open>variants\<close> with that id.\<close>

definition variant_of :: "product \<Rightarrow> object_id \<Rightarrow> product_variant option" where
  "variant_of p v = find (\<lambda>pv. pv_id pv = v) (variants p)"

text \<open>The variant price modifier of a line, 0 without a variant; the unit price
  \<open>price + variantModifier\<close> of a line; and the subtotal
  \<open>\<Sigma> (price + variantModifier) \<times> qty\<close> over the lines, added up in JavaScript numbers from
  the first line on.\<close>

definition claimed_modifier :: "(object_id \<rightharpoonup> product) \<Rightarrow> cart_item \<Rightarrow> double" where
  "claimed_modifier db item =
     (case ci_variant item of
        None \<Rightarrow> dec 0 0
      | Some v \<Rightarrow>
          (case db (ci_product item) of
             None \<Rightarrow> dec 0 0
           | Some p \<Rightarrow>
               (case variant_of p v of None \<Rightarrow> dec 0 0 | Some pv \<Rightarrow> pv_priceModifier pv)))"

definition claimed_unit_price :: "(object_id \<rightharpoonup> product) \<Rightarrow> cart_item \<Rightarrow> double" where
  "claimed_unit_price db item =
     (case db (ci_product item) of
        None \<Rightarrow> dec 0 0
      | Some p \<Rightarrow> dadd (price p) (claimed_modifier db item))"

definition claimed_subtotal :: "(object_id \<rightharpoonup> product) \<Rightarrow> cart_item list \<Rightarrow> double" where
  "claimed_subtotal db its =
     foldl (\<lambda>s item. dadd s (dmul (claimed_unit_price db item) (of_count (ci_quantity item))))
       (dec 0 0) its"

text \<open>The lines of a user's cart; a user without a cart has none.\<close>

definition cart_lines :: "shop \<Rightarrow> object_id \<Rightarrow> cart_item list" where
  "cart_lines st uid = (case carts st uid of None \<Rightarrow> [] | Some c \<Rightarrow> c)"

text \<open>The sum over the persisted items of recorded price times quantity.\<close>

definition recorded_sum :: "order \<Rightarrow> double" where
  "recorded_sum ord =
     foldl (\<lambda>s item. dadd s (dmul (oi_price item) (of_count (oi_quantity item))))
       (dec 0 0) (o_items ord)"

section \<open>Example stores and requests\<close>

text \<open>One product priced 50, with a variant that adds 10, and a cart holding two of the
  product without a variant; the cart as it is read and the order made from it.\<close>

definition ex_user :: user where
  "ex_user = \<lparr>user_id = ''u1'', role = ''user''\<rparr>"

definition ex_product :: product where
  "ex_product =
     \<lparr>name = ''Watch'', price = dec 50 0, stock = 5,
      variants = [\<lparr>pv_id = ''v1'', pv_priceModifier = dec 10 0\<rparr>],
      merchant = Some ''m1'', rating = 0, reviewCount = 0\<rparr>"

definition ex_line :: cart_item where
  "ex_line = \<lparr>ci_id = ''l1'', ci_product = ''p1'', ci_quantity = 2, ci_variant = None\<rparr>"

definition ex_shop :: shop where
  "ex_shop = \<lparr>products = [''p1'' \<mapsto> ex_product], carts = [''u1'' \<mapsto> [ex_line]],
               orders = Map.empty, reviews = []\<rparr>"

definition ex_body :: order_body where
  "ex_body = \<lparr>shippingAddress = Some ''1 Main St'', billingAddress = None,
               paymentMethod = ''card''\<rparr>"

definition ex_cart_view :: cart_view where
  "ex_cart_view =
     \<lparr>cv_items = [\<lparr>p_item = ex_line, p_product = Some ex_product, p_variant = None\<rparr>],
      cv_subtotal = dec 100 0, cv_discount = dec 0 0, cv_shipping = dec 0 0,
      cv_tax = dec 8 0, cv_total = dec 108 0\<rparr>"

definition ex_order :: order where
  "ex_order =
     \<lparr>o_user = ''u1'',
      o_items = [\<lparr>oi_product = ''p1'', oi_quantity = 2, oi_variant = None,
                  oi_price = dec 50 0\<rparr>],
      o_shippingAddress = ''1 Main St'', o_billingAddress = ''1 Main St'',
      o_paymentMethod = ''card'', o_subtotal = dec 100 0, o_discount = dec 0 0,
      o_shipping = dec 0 0, o_tax = dec 8 0, o_total = dec 108 0, o_status = ''pending'',
      o_trackingNumber = None, o_estimatedDelivery = None\<rparr>"

definition ex_shop_ordered :: shop where
  "ex_shop_ordered =
     \<lparr>products = [''p1'' \<mapsto> ex_product\<lparr>stock := 3\<rparr>], carts = [''u1'' \<mapsto> []],
      orders = [''o1'' \<mapsto> ex_order], reviews = []\<rparr>"

text \<open>Two products; the second cart line asks for more than is in stock.\<close>

definition c1_shop :: shop where
  "c1_shop =
     \<lparr>products =
        [''pa'' \<mapsto> \<lparr>name = ''Scarf'', price = dec 20 0, stock = 5, variants = [],
                    merchant = None, rating = 0, reviewCount = 0\<rparr>,
         ''pb'' \<mapsto> \<lparr>name = ''Belt'', price = dec 30 0, stock = 2, variants = [],
                    merchant = None, rating = 0, reviewCount = 0\<rparr>],
      carts =
        [''u1'' \<mapsto>
           [\<lparr>ci_id = ''l1'', ci_product = ''pa'', ci_quantity = 1, ci_variant = None\<rparr>,
            \<lparr>ci_id = ''l2'', ci_product = ''pb'', ci_quantity = 3, ci_variant = None\<rparr>]],
      orders = Map.empty, reviews = []\<rparr>"

text \<open>A cart line of the example product that refers to its variant, the example store with
  that line as the cart, the cart as it is read when the reference is populated with the
  product's variant, and the order made from it.\<close>

definition variant_line :: cart_item where
  "variant_line =
     \<lparr>ci_id = ''l1'', ci_product = ''p1'', ci_quantity = 1, ci_variant = Some ''v1''\<rparr>"

definition variant_order_shop :: shop where
  "variant_order_shop = ex_shop\<lparr>carts := [''u1'' \<mapsto> [variant_line]]\<rparr>"

definition variant_order :: order where
  "variant_order =
     \<lparr>o_user = ''u1'',
      o_items = [\<lparr>oi_product = ''p1'', oi_quantity = 1, oi_variant = Some ''v1'',
                  oi_price = dec 50 0\<rparr>],
      o_shippingAddress = ''1 Main St'', o_billingAddress = ''1 Main St'',
      o_paymentMethod = ''card'', o_subtotal = dec 50 0, o_discount = dec 0 0,
      o_shipping = dec 999 2, o_tax = dec 4 0, o_total = dec 6399 2, o_status = ''pending'',
      o_trackingNumber = None, o_estimatedDelivery = None\<rparr>"
definition variant_cart_view :: cart_view where
  "variant_cart_view =
     \<lparr>cv_items = [\<lparr>p_item = variant_line, p_product = Some ex_product,
                   p_variant = Some \<lparr>pv_id = ''v1'', pv_priceModifier = dec 10 0\<rparr>\<rparr>],
      cv_subtotal = dec 60 0, cv_discount = dec 0 0, cv_shipping = dec 999 2,
      cv_tax = dec 480 2, cv_total = dec 7478999999999999 14\<rparr>"

text \<open>Nine items at 7.64 and one at 31.24: in JavaScript numbers the subtotal stays below
  100.\<close>

definition float_cart_shop :: shop where
  "float_cart_shop =
     \<lparr>products =
        [''pa'' \<mapsto> \<lparr>name = ''Scarf'', price = dec 764 2, stock = 20, variants = [],
                    merchant = None, rating = 0, reviewCount = 0\<rparr>,
         ''pb'' \<mapsto> \<lparr>name = ''Belt'', price = dec 3124 2, stock = 20, variants = [],
                    merchant = None, rating = 0, reviewCount = 0\<rparr>],
      carts =
        [''u1'' \<mapsto>
           [\<lparr>ci_id = ''l1'', ci_product = ''pa'', ci_quantity = 9, ci_variant = None\<rparr>,
            \<lparr>ci_id = ''l2'', ci_product = ''pb'', ci_quantity = 1, ci_variant = None\<rparr>]],
      orders = Map.empty, reviews = []\<rparr>"

section \<open>Cancellation, as the specification states it\<close>




section \<open>Example orders\<close>

text \<open>The store after the example order, with the order put into a given status.\<close>

definition shop_with_status :: "string \<Rightarrow> shop" where
  "shop_with_status s = ex_shop_ordered\<lparr>orders := [''o1'' \<mapsto> ex_order\<lparr>o_status := s\<rparr>]\<rparr>"

section \<open>Status updates, as the specification states them\<close>

text \<open>Some item of the order refers to an existing product whose merchant is the given
  user.\<close>

definition owns_item_of :: "shop \<Rightarrow> object_id \<Rightarrow> order \<Rightarrow> bool" where
  "owns_item_of st uid ord \<longleftrightarrow>
     (\<exists>item\<in>set (o_items ord). \<exists>p. products st (oi_product item) = Some p \<and> merchant p = Some uid)"

text \<open>An admin, a merchant who owns no product of the example store, and a status request
  without tracking data.\<close>

definition ex_admin :: user where
  "ex_admin = \<lparr>user_id = ''a1'', role = ''admin''\<rparr>"

definition ex_merchant :: user where
  "ex_merchant = \<lparr>user_id = ''m2'', role = ''merchant''\<rparr>"

definition status_request :: "string \<Rightarrow> status_body" where
  "status_request s = \<lparr>status = s, trackingNumber = None, estimatedDelivery = None\<rparr>"

section \<open>Cart lines, as the specification states them\<close>






text \<open>The example store with a given cart for the example user, an add request for the
  example product, and a cart of three lines whose second and third refer to the example
  product, with different variants.\<close>

definition shop_with_cart :: "cart_item list \<Rightarrow> shop" where
  "shop_with_cart its = ex_shop\<lparr>carts := [''u1'' \<mapsto> its]\<rparr>"

definition add_request :: "json_count \<Rightarrow> string option \<Rightarrow> add_body" where
  "add_request q v = \<lparr>productId = ''p1'', quantity = q, variant = v\<rparr>"


section \<open>Ratings, as the specification states them\<close>

text \<open>The ratings of a product's reviews, their mean, rounding to one decimal place (a half
  goes up), and the rating of a product: the rounded mean, 0 without reviews.\<close>

definition product_ratings :: "shop \<Rightarrow> object_id \<Rightarrow> int list" where
  "product_ratings st pid = map r_rating (filter (\<lambda>r. r_product r = pid) (reviews st))"

definition mean :: "int list \<Rightarrow> real" where
  "mean xs = real_of_int (sum_list xs) / real (length xs)"

definition round1 :: "real \<Rightarrow> real" where
  "round1 x = real_of_int \<lfloor>x * 10 + 1 / 2\<rfloor> / 10"

definition rating_of :: "int list \<Rightarrow> real" where
  "rating_of xs = (if xs = [] then 0 else round1 (mean xs))"

text \<open>The derived fields of a product agree with its reviews.\<close>

definition rating_current :: "shop \<Rightarrow> object_id \<Rightarrow> bool" where
  "rating_current st pid =
     (case products st pid of
        None \<Rightarrow> True
      | Some p \<Rightarrow>
          rating p = rating_of (product_ratings st pid) \<and>
          reviewCount p = int (length (product_ratings st pid)))"

text \<open>A review of the example product, the example store with given reviews, and a review
  request for the example product.\<close>

definition ex_review :: "object_id \<Rightarrow> object_id \<Rightarrow> int \<Rightarrow> review" where
  "ex_review rid uid r =
     \<lparr>r_id = rid, r_product = ''p1'', r_user = uid, r_rating = r, r_comment = []\<rparr>"

definition review_shop :: "review list \<Rightarrow> shop" where
  "review_shop rs = ex_shop\<lparr>reviews := rs\<rparr>"

definition review_request :: "int \<Rightarrow> review_body" where
  "review_request r = \<lparr>rv_productId = ''p1'', rv_rating = r, rv_comment = None\<rparr>"

text \<open>The example store after the reviewed product was deleted: the route that deletes a
  product leaves its reviews in place.\<close>

definition orphan_review_shop :: shop where
  "orphan_review_shop = (review_shop [ex_review ''r1'' ''u1'' 4])\<lparr>products := Map.empty\<rparr>"

section \<open>Verification: totals and order creation\<close>

lemma arith_50:
  "dadd (dec 50 0) (dec 0 0) = dec 50 0"
  "dmul (dec 50 0) (of_count 2) = dec 100 0"
  "dadd (dec 0 0) (dec 100 0) = dec 100 0"
  "dge (dec 100 0) (dec 100 0)"
  "dmul (dec 100 0) (dec 8 2) = dec 8 0"
  "dadd (dadd (dec 100 0) (dec 0 0)) (dec 8 0) = dec 108 0"
  by code_simp+

lemma arith_variant:
  "dmul (dec 50 0) (of_count 1) = dec 50 0"
  "dadd (dec 0 0) (dec 50 0) = dec 50 0"
  "\<not> dge (dec 50 0) (dec 100 0)"
  "dmul (dec 50 0) (dec 8 2) = dec 4 0"
  "dadd (dadd (dec 50 0) (dec 999 2)) (dec 4 0) = dec 6399 2"
  "dadd (dec 50 0) (dec 10 0) = dec 60 0"
  "dmul (dec 60 0) (of_count 1) = dec 60 0"
  "dadd (dec 0 0) (dec 60 0) = dec 60 0"
  "dec 50 0 \<noteq> dec 60 0"
  by code_simp+

lemma arith_float:
  "dadd (dec 764 2) (dec 0 0) = dec 764 2"
  "dadd (dec 3124 2) (dec 0 0) = dec 3124 2"
  "dadd (dec 0 0) (dmul (dec 764 2) (of_count 9)) = dec 6875999999999999 14"
  "dadd (dec 6875999999999999 14) (dmul (dec 3124 2) (of_count 1)) = dec 9999999999999999 14"
  "\<not> dge (dec 9999999999999999 14) (dec 100 0)"
  "dmul (dec 9999999999999999 14) (dec 8 2) = dec 7999999999999999 15"
  "dadd (dadd (dec 9999999999999999 14) (dec 999 2)) (dec 7999999999999999 15)
     = dec 11798999999999998 14"
  by code_simp+

lemma or_zero_None: "or_zero None = dec 0 0"
  by (simp add: or_zero_def)

text \<open>The example of the specification, one item priced 50 at quantity 2: subtotal 100,
  shipping 0, tax 8 and total 108, for the cart read and for the order.\<close>

lemma ex_cart_read:
  "get_cart ex_user resolve ex_shop = (Inr ex_cart_view, ex_shop)"
  by (simp add: get_cart_def populate_cart_def ex_user_def ex_shop_def ex_line_def
        ex_product_def ex_cart_view_def or_zero_None arith_50 Let_def)

lemma ex_order_created:
  "create_order ex_user ex_body ''o1'' ex_shop = (Inr ex_order, ex_shop_ordered)"
  by (simp add: create_order_def populate_product_def save_product_def ex_user_def ex_shop_def
        ex_line_def ex_product_def ex_body_def ex_order_def ex_shop_ordered_def
        unpopulated_priceModifier_def initial_status_def or_zero_None arith_50 Let_def)

text \<open>The cart of one line with a variant: it is what the add handler stores, the order made
  from it, what the specification's formula gives for it, and how it is read.\<close>

lemma variant_order_created:
  "fst (create_order ex_user ex_body ''o1'' variant_order_shop) = Inr variant_order"
  "orders (snd (create_order ex_user ex_body ''o1'' variant_order_shop)) ''o1''
     = Some variant_order"
  by (simp_all add: create_order_def populate_product_def save_product_def ex_user_def
        ex_shop_def variant_order_shop_def variant_line_def ex_product_def ex_body_def
        variant_order_def unpopulated_priceModifier_def initial_status_def or_zero_None
        arith_50 arith_variant Let_def)

lemma variant_claimed:
  "claimed_unit_price (products variant_order_shop) variant_line = dec 60 0"
  "claimed_subtotal (products variant_order_shop) (cart_lines variant_order_shop ''u1'')
     = dec 60 0"
  by (simp_all add: claimed_subtotal_def claimed_unit_price_def claimed_modifier_def
        variant_of_def cart_lines_def variant_order_shop_def ex_shop_def variant_line_def
        ex_product_def arith_variant)

lemma arith_variant_cart:
  "or_zero (Some (dec 10 0)) = dec 10 0"
  "\<not> dge (dec 60 0) (dec 100 0)"
  "dmul (dec 60 0) (dec 8 2) = dec 480 2"
  "dadd (dadd (dec 60 0) (dec 999 2)) (dec 480 2) = dec 7478999999999999 14"
  by code_simp+

lemma variant_cart_read:
  "get_cart ex_user (variant_of ex_product) variant_order_shop
     = (Inr variant_cart_view, variant_order_shop)"
  by (simp add: get_cart_def populate_cart_def ex_user_def ex_shop_def variant_order_shop_def
        variant_line_def ex_product_def variant_cart_view_def variant_of_def
        arith_variant arith_variant_cart Let_def)

lemma variant_line_added:
  "add_item ex_user \<lparr>productId = ''p1'', quantity = Num 1, variant = Some ''v1''\<rparr> ''l1''
      (ex_shop\<lparr>carts := Map.empty\<rparr>)
     = (Inr [(variant_line, Some ex_product)], variant_order_shop)"
  by (simp add: add_item_def add_to_lines_def find_or_create_cart_def same_line_def
        no_variant_def populate_product_def ex_shop_def ex_user_def variant_order_shop_def
        variant_line_def isInt_min1_def stock_below_def cast_number_def ex_product_def)

text \<open>Nine items at 7.64 and one at 31.24: the running subtotal in JavaScript numbers is
  99.99999999999999, so shipping is charged, and the total is 117.98999999999998.\<close>

lemma float_cart_read:
  "\<exists>cv. fst (get_cart ex_user resolve float_cart_shop) = Inr cv \<and>
     cv_subtotal cv = dec 9999999999999999 14 \<and> cv_shipping cv = dec 999 2 \<and>
     cv_total cv = dec 11798999999999998 14"
  by (simp add: get_cart_def populate_cart_def ex_user_def float_cart_shop_def
        or_zero_None arith_float Let_def)

text \<open>
  Claim C2.  The claim asks that the cart read and the order creation both compute
  \<open>subtotal = \<Sigma> (price + variant priceModifier) \<times> qty\<close>.  The cart read populates the variant
  of a line and adds its modifier; the order handler populates the products only, so what
  it reads as \<open>item.variant?.priceModifier\<close> is undefined and it adds 0.  At a cart of one
  item priced 50 whose variant adds 10, the subtotal of the claim and of the cart read is
  60, and the order is stored with subtotal 50, shipping 9.99, tax 4 and total 63.99.  The
  cart is the one that adding the product with that variant to an empty cart leaves.
\<close>

theorem order_subtotal_misses_variant_modifier:
  "snd (add_item ex_user \<lparr>productId = ''p1'', quantity = Num 1, variant = Some ''v1''\<rparr> ''l1''
          (ex_shop\<lparr>carts := Map.empty\<rparr>)) = variant_order_shop \<and>
   cart_lines variant_order_shop (user_id ex_user) = [variant_line] \<and>
   claimed_subtotal (products variant_order_shop) [variant_line] = dec 60 0 \<and>
   fst (get_cart ex_user (variant_of ex_product) variant_order_shop) = Inr variant_cart_view \<and>
   cv_subtotal variant_cart_view = dec 60 0 \<and>
   fst (create_order ex_user ex_body ''o1'' variant_order_shop) = Inr variant_order \<and>
   o_subtotal variant_order = dec 50 0 \<and>
   o_shipping variant_order = dec 999 2 \<and>
   o_tax variant_order = dec 4 0 \<and>
   o_total variant_order = dec 6399 2 \<and>
   dec 50 0 \<noteq> dec 60 0"
proof -
  have "snd (add_item ex_user \<lparr>productId = ''p1'', quantity = Num 1, variant = Some ''v1''\<rparr>
      ''l1'' (ex_shop\<lparr>carts := Map.empty\<rparr>)) = variant_order_shop"
    by (simp add: variant_line_added)
  moreover have l: "cart_lines variant_order_shop (user_id ex_user) = [variant_line]"
    by (simp add: cart_lines_def variant_order_shop_def ex_user_def)
  moreover from l variant_claimed(2)
  have "claimed_subtotal (products variant_order_shop) [variant_line] = dec 60 0"
    by (simp add: ex_user_def)
  moreover have "fst (get_cart ex_user (variant_of ex_product) variant_order_shop)
      = Inr variant_cart_view"
    by (simp add: variant_cart_read)
  moreover have "cv_subtotal variant_cart_view = dec 60 0"
    by (simp add: variant_cart_view_def)
  moreover have "o_subtotal variant_order = dec 50 0" "o_shipping variant_order = dec 999 2"
    "o_tax variant_order = dec 4 0" "o_total variant_order = dec 6399 2"
    by (simp_all add: variant_order_def)
  ultimately show ?thesis
    using variant_order_created(1) arith_variant(9) by (intro conjI)
qed

text \<open>
  Claim C1.  The claim asks that an order creation that fails on a line whose quantity
  exceeds the stock leaves every stock as it was.  The handler decrements and saves each
  product inside the loop that checks the lines, so at a cart whose first line is in stock
  and whose second is not, the reply is 400 and no order is stored, but the first product's
  stock has gone from 5 to 4.
\<close>

theorem failed_order_keeps_earlier_decrement:
  "fst (create_order ex_user ex_body ''o1'' c1_shop) = Inl (Failure 400 ''Insufficient stock for Belt'') \<and>
   orders (snd (create_order ex_user ex_body ''o1'' c1_shop)) = orders c1_shop \<and>
   map_option stock (products c1_shop ''pa'') = Some 5 \<and>
   map_option stock (products (snd (create_order ex_user ex_body ''o1'' c1_shop)) ''pa'') = Some 4"
  by (simp add: create_order_def c1_shop_def ex_user_def ex_body_def populate_product_def
        save_product_def)

text \<open>
  Claim C9.  The claim asks that the item persisted for a cart line with a variant records
  the product price plus the variant's price modifier.  The handler never sees that
  modifier, the variant of a cart line being an unpopulated reference, and it records
  \<open>product.price\<close>: at a line of one product priced 50 whose variant adds 10, the item of
  the stored order records 50 where the claim has 60.  The recorded prices times the
  quantities do add up to the stored subtotal.
\<close>

theorem order_item_price_misses_modifier:
  "snd (add_item ex_user \<lparr>productId = ''p1'', quantity = Num 1, variant = Some ''v1''\<rparr> ''l1''
          (ex_shop\<lparr>carts := Map.empty\<rparr>)) = variant_order_shop \<and>
   orders (snd (create_order ex_user ex_body ''o1'' variant_order_shop)) ''o1''
     = Some variant_order \<and>
   map oi_variant (o_items variant_order) = [Some ''v1''] \<and>
   map oi_price (o_items variant_order) = [dec 50 0] \<and>
   claimed_unit_price (products variant_order_shop) variant_line = dec 60 0 \<and>
   dec 50 0 \<noteq> dec 60 0 \<and>
   recorded_sum variant_order = o_subtotal variant_order"
proof -
  have "snd (add_item ex_user \<lparr>productId = ''p1'', quantity = Num 1, variant = Some ''v1''\<rparr>
      ''l1'' (ex_shop\<lparr>carts := Map.empty\<rparr>)) = variant_order_shop"
    by (simp add: variant_line_added)
  moreover have "map oi_variant (o_items variant_order) = [Some ''v1'']"
    "map oi_price (o_items variant_order) = [dec 50 0]"
    by (simp_all add: variant_order_def)
  moreover have "recorded_sum variant_order = o_subtotal variant_order"
    by (simp add: recorded_sum_def variant_order_def arith_variant)
  ultimately show ?thesis
    using variant_order_created(2) variant_claimed(1) arith_variant(9) by (intro conjI)
qed

section \<open>Verification: cancellation\<close>










section \<open>Verification: status updates\<close>

lemma some_merchant_item:
  "list_ex (is_merchant_item (products st) uid) (o_items ord) = owns_item_of st uid ord"
  by (auto simp: list_ex_iff is_merchant_item_def owns_item_of_def split: option.splits)

lemma status_values_set:
  "set status_values =
     {''pending'', ''confirmed'', ''processing'', ''shipped'', ''delivered'', ''cancelled'',
      ''returned''}"
  by (simp add: status_values_def)

lemma update_status_invalid:
  "role u \<in> {''admin'', ''merchant''} \<Longrightarrow> status body \<notin> set status_values \<Longrightarrow>
   update_status u oid body st = (Inl (Failure 400 ''Validation error''), st)"
  by (auto simp: update_status_def authorize_def)

lemma update_status_ok:
  "orders st oid = Some ord \<Longrightarrow> status body \<in> set status_values \<Longrightarrow>
   role u = ''admin'' \<or> role u = ''merchant'' \<and> owns_item_of st (user_id u) ord \<Longrightarrow>
   \<exists>ord'. update_status u oid body st = (Inr ord', st\<lparr>orders := (orders st)(oid \<mapsto> ord')\<rparr>) \<and>
          o_status ord' = status body \<and> o_items ord' = o_items ord \<and> o_user ord' = o_user ord"
  by (auto simp: update_status_def authorize_def some_merchant_item Let_def)

lemma update_status_foreign:
  "role u = ''merchant'' \<Longrightarrow> orders st oid = Some ord \<Longrightarrow> \<not> owns_item_of st (user_id u) ord \<Longrightarrow>
   update_status u oid body st =
     (if status body \<in> set status_values
      then (Inl (Failure 403
        ''Not authorized to update this order. Order does not contain your products.''), st)
      else (Inl (Failure 400 ''Validation error''), st))"
  by (simp add: update_status_def authorize_def some_merchant_item)

lemma update_status_admin:
  "role u = ''admin'' \<Longrightarrow> fst (update_status u oid body st) = Inl e \<Longrightarrow> http_status e \<noteq> 403"
  by (auto simp: update_status_def authorize_def Let_def split: if_splits option.splits)

text \<open>
  Claim C4.  A status update by an admin or merchant whose requested status is none of
  pending, confirmed, processing, shipped, delivered, cancelled, returned is rejected with
  400 and the store unchanged.  A request with one of these seven values, on an existing
  order, by an admin or by a merchant who owns a product of the order, succeeds and stores
  the order with the requested status, whatever status the order had.
\<close>

theorem status_update_any_to_any:
  "(role u \<in> {''admin'', ''merchant''} \<and>
    status body \<notin> {''pending'', ''confirmed'', ''processing'', ''shipped'', ''delivered'',
                     ''cancelled'', ''returned''} \<longrightarrow>
      update_status u oid body st = (Inl (Failure 400 ''Validation error''), st)) \<and>
   (orders st oid = Some ord \<and>
    status body \<in> {''pending'', ''confirmed'', ''processing'', ''shipped'', ''delivered'',
                     ''cancelled'', ''returned''} \<and>
    (role u = ''admin'' \<or> role u = ''merchant'' \<and> owns_item_of st (user_id u) ord) \<longrightarrow>
      (\<exists>ord'. update_status u oid body st = (Inr ord', st\<lparr>orders := (orders st)(oid \<mapsto> ord')\<rparr>) \<and>
             o_status ord' = status body \<and> o_items ord' = o_items ord \<and>
             o_user ord' = o_user ord))"
  using update_status_invalid [of u body oid st] update_status_ok [of st oid ord body u]
  unfolding status_values_set by blast

theorem status_update_any_to_any_witness:
  "update_status ex_admin ''o1'' (status_request ''lost'') (shop_with_status ''delivered'')
     = (Inl (Failure 400 ''Validation error''), shop_with_status ''delivered'') \<and>
   fst (update_status ex_admin ''o1'' (status_request ''pending'') (shop_with_status ''delivered''))
     = Inr (ex_order\<lparr>o_status := ''pending''\<rparr>)"
proof -
  have h1: "role ex_admin \<in> {''admin'', ''merchant''} \<and>
      status (status_request ''lost'') \<notin> {''pending'', ''confirmed'', ''processing'', ''shipped'',
        ''delivered'', ''cancelled'', ''returned''}"
    by (simp add: ex_admin_def status_request_def)
  have h2: "orders (shop_with_status ''delivered'') ''o1''
        = Some (ex_order\<lparr>o_status := ''delivered''\<rparr>) \<and>
      status (status_request ''pending'') \<in> {''pending'', ''confirmed'', ''processing'',
        ''shipped'', ''delivered'', ''cancelled'', ''returned''} \<and>
      (role ex_admin = ''admin'' \<or>
       role ex_admin = ''merchant'' \<and>
       owns_item_of (shop_with_status ''delivered'') (user_id ex_admin)
         (ex_order\<lparr>o_status := ''delivered''\<rparr>))"
    by (simp add: ex_admin_def status_request_def shop_with_status_def)
  note a = status_update_any_to_any [THEN conjunct1, rule_format, OF h1]
  from status_update_any_to_any [THEN conjunct2, rule_format, OF h2]
  obtain ord' where
    e: "update_status ex_admin ''o1'' (status_request ''pending'') (shop_with_status ''delivered'')
        = (Inr ord', shop_with_status ''delivered''
             \<lparr>orders := (orders (shop_with_status ''delivered''))(''o1'' \<mapsto> ord')\<rparr>)"
    by blast
  have b: "fst (update_status ex_admin ''o1'' (status_request ''pending'')
        (shop_with_status ''delivered'')) = Inr (ex_order\<lparr>o_status := ''pending''\<rparr>)"
    by (simp add: update_status_def authorize_def ex_admin_def status_request_def
          status_values_def shop_with_status_def or_keep_def ex_order_def Let_def)
  from a b show ?thesis by (intro conjI)
qed

text \<open>
  Claim C7, as amended.  A merchant's status update on an existing order none of whose items refers to
  a product of that merchant never succeeds and leaves the store unchanged; the reply is 403
  when the requested status is one of the seven values (the validator answers first
  otherwise).  An admin's status update is never answered with 403, and it succeeds on every
  existing order when the requested status is one of the seven values.
\<close>

theorem merchant_needs_own_product:
  "(role u = ''merchant'' \<and> orders st oid = Some ord \<and> \<not> owns_item_of st (user_id u) ord \<longrightarrow>
      snd (update_status u oid body st) = st \<and>
      (\<exists>e. fst (update_status u oid body st) = Inl e) \<and>
      (status body \<in> {''pending'', ''confirmed'', ''processing'', ''shipped'', ''delivered'',
                       ''cancelled'', ''returned''} \<longrightarrow>
         fst (update_status u oid body st) = Inl (Failure 403
           ''Not authorized to update this order. Order does not contain your products.''))) \<and>
   (role u = ''admin'' \<longrightarrow>
      (\<forall>e. fst (update_status u oid body st) = Inl e \<longrightarrow> http_status e \<noteq> 403) \<and>
      (orders st oid = Some ord \<and>
       status body \<in> {''pending'', ''confirmed'', ''processing'', ''shipped'', ''delivered'',
                       ''cancelled'', ''returned''} \<longrightarrow>
         (\<exists>ord'. fst (update_status u oid body st) = Inr ord' \<and> o_status ord' = status body)))"
proof (intro conjI impI allI)
  assume a: "role u = ''merchant'' \<and> orders st oid = Some ord \<and>
      \<not> owns_item_of st (user_id u) ord"
  then have f: "update_status u oid body st =
     (if status body \<in> set status_values
      then (Inl (Failure 403
        ''Not authorized to update this order. Order does not contain your products.''), st)
      else (Inl (Failure 400 ''Validation error''), st))"
    by (simp add: update_status_foreign)
  from f show "snd (update_status u oid body st) = st" by simp
  from f show "\<exists>e. fst (update_status u oid body st) = Inl e" by simp
  assume "status body \<in> {''pending'', ''confirmed'', ''processing'', ''shipped'', ''delivered'',
                       ''cancelled'', ''returned''}"
  with f show "fst (update_status u oid body st) = Inl (Failure 403
           ''Not authorized to update this order. Order does not contain your products.'')"
    by (simp only: status_values_set [symmetric] if_True fst_conv)
next
  fix e
  assume "role u = ''admin''" and "fst (update_status u oid body st) = Inl e"
  then show "http_status e \<noteq> 403" by (rule update_status_admin)
next
  assume r: "role u = ''admin''"
  assume "orders st oid = Some ord \<and>
       status body \<in> {''pending'', ''confirmed'', ''processing'', ''shipped'', ''delivered'',
                       ''cancelled'', ''returned''}"
  then have "orders st oid = Some ord" and "status body \<in> set status_values"
    by (simp_all only: status_values_set)
  from update_status_ok [OF this, of u] r
  obtain ord' where "update_status u oid body st
      = (Inr ord', st\<lparr>orders := (orders st)(oid \<mapsto> ord')\<rparr>)" and "o_status ord' = status body"
    by blast
  then show "\<exists>ord'. fst (update_status u oid body st) = Inr ord' \<and> o_status ord' = status body"
    by simp
qed

theorem merchant_needs_own_product_witness:
  "\<not> owns_item_of (shop_with_status ''pending'') (user_id ex_merchant)
       (ex_order\<lparr>o_status := ''pending''\<rparr>) \<and>
   update_status ex_merchant ''o1'' (status_request ''shipped'') (shop_with_status ''pending'')
     = (Inl (Failure 403
         ''Not authorized to update this order. Order does not contain your products.''),
        shop_with_status ''pending'') \<and>
   fst (update_status ex_admin ''o1'' (status_request ''shipped'') (shop_with_status ''pending''))
     = Inr (ex_order\<lparr>o_status := ''shipped''\<rparr>)"
proof -
  have n: "\<not> owns_item_of (shop_with_status ''pending'') (user_id ex_merchant)
       (ex_order\<lparr>o_status := ''pending''\<rparr>)"
    by (simp add: owns_item_of_def shop_with_status_def ex_shop_ordered_def ex_order_def
          ex_merchant_def ex_product_def)
  have h1: "role ex_merchant = ''merchant'' \<and>
      orders (shop_with_status ''pending'') ''o1'' = Some (ex_order\<lparr>o_status := ''pending''\<rparr>) \<and>
      \<not> owns_item_of (shop_with_status ''pending'') (user_id ex_merchant)
           (ex_order\<lparr>o_status := ''pending''\<rparr>)"
    using n by (simp add: ex_merchant_def shop_with_status_def)
  have v: "status (status_request ''shipped'') \<in> {''pending'', ''confirmed'', ''processing'',
        ''shipped'', ''delivered'', ''cancelled'', ''returned''}"
    by (simp add: status_request_def)
  note m = merchant_needs_own_product [THEN conjunct1, rule_format, OF h1]
  from m have m1: "snd (update_status ex_merchant ''o1'' (status_request ''shipped'')
      (shop_with_status ''pending'')) = shop_with_status ''pending''"
    by (rule conjunct1)
  note m2 = m [THEN conjunct2, THEN conjunct2, rule_format, OF v]
  from m1 m2 have a: "update_status ex_merchant ''o1'' (status_request ''shipped'')
      (shop_with_status ''pending'')
     = (Inl (Failure 403
         ''Not authorized to update this order. Order does not contain your products.''),
        shop_with_status ''pending'')"
    by (cases "update_status ex_merchant ''o1'' (status_request ''shipped'')
      (shop_with_status ''pending'')") simp
  have h2: "role ex_admin = ''admin''"
    by (simp add: ex_admin_def)
  have h3: "orders (shop_with_status ''pending'') ''o1'' = Some (ex_order\<lparr>o_status := ''pending''\<rparr>) \<and>
      status (status_request ''shipped'') \<in> {''pending'', ''confirmed'', ''processing'',
        ''shipped'', ''delivered'', ''cancelled'', ''returned''}"
    by (simp add: shop_with_status_def status_request_def)
  from merchant_needs_own_product [THEN conjunct2, rule_format, OF h2, THEN conjunct2,
      rule_format, OF h3]
  obtain ord' where "fst (update_status ex_admin ''o1'' (status_request ''shipped'')
      (shop_with_status ''pending'')) = Inr ord'"
    by blast
  have b: "fst (update_status ex_admin ''o1'' (status_request ''shipped'')
        (shop_with_status ''pending'')) = Inr (ex_order\<lparr>o_status := ''shipped''\<rparr>)"
    by (simp add: update_status_def authorize_def ex_admin_def status_request_def
          status_values_def shop_with_status_def or_keep_def ex_order_def Let_def)
  from n a b show ?thesis by (intro conjI)
qed

text \<open>
  Claim C7 as stated says that every such request of a merchant is answered with 403.  The
  validator of the status runs before the ownership check: a merchant who owns no product
  of the order and asks for a status outside the seven values gets 400.
\<close>

theorem foreign_merchant_with_unknown_status_gets_400:
  "role ex_merchant = ''merchant'' \<and>
   orders (shop_with_status ''pending'') ''o1'' = Some (ex_order\<lparr>o_status := ''pending''\<rparr>) \<and>
   \<not> owns_item_of (shop_with_status ''pending'') (user_id ex_merchant)
       (ex_order\<lparr>o_status := ''pending''\<rparr>) \<and>
   update_status ex_merchant ''o1'' (status_request ''lost'') (shop_with_status ''pending'')
     = (Inl (Failure 400 ''Validation error''), shop_with_status ''pending'')"
  by (simp add: update_status_def authorize_def status_values_def status_request_def
        ex_merchant_def owns_item_of_def shop_with_status_def ex_shop_ordered_def ex_order_def
        ex_product_def)

section \<open>Verification: cart lines\<close>


lemma findIndex_Some:
  "findIndex P xs = Some i \<Longrightarrow> i < length xs \<and> P (xs ! i) \<and> (\<forall>j<i. \<not> P (xs ! j))"
proof (induction xs arbitrary: i)
  case Nil
  then show ?case by simp
next
  case (Cons x xs)
  show ?case
  proof (cases "P x")
    case True
    with Cons.prems show ?thesis by simp
  next
    case False
    with Cons.prems obtain k where k: "findIndex P xs = Some k" and i: "i = Suc k"
      by auto
    from Cons.IH [OF k] i False show ?thesis
      by (auto simp: less_Suc_eq_0_disj)
  qed
qed

















lemma pair_fst_snd: "fst x = a \<Longrightarrow> x = (a, snd x)"
  by (cases x) simp

lemmas ex_cart_defs = add_item_def add_to_lines_def find_or_create_cart_def same_line_def
  no_variant_def populate_product_def shop_with_cart_def add_request_def ex_shop_def
  ex_user_def ex_product_def ex_line_def variant_line_def isInt_min1_def stock_below_def
  cast_number_def js_plus_def Let_def

text \<open>
  Claim C5.  The claim asks that after a successful add or update no line holds more than
  the stock of its product as read in that request.  The add handler compares the stock with
  the requested quantity only and then adds that quantity to the line it merges into: with a
  stock of 5 and a line of 4, adding 3 succeeds and leaves a line of 7, while the update
  handler refuses to set that line to 7.
\<close>

theorem merged_quantity_exceeds_stock:
  "map_option stock (products (shop_with_cart [ex_line\<lparr>ci_quantity := 4\<rparr>]) ''p1'') = Some 5 \<and>
   add_item ex_user (add_request (Num 3) None) ''l2'' (shop_with_cart [ex_line\<lparr>ci_quantity := 4\<rparr>])
     = (Inr [(ex_line\<lparr>ci_quantity := 7\<rparr>, Some ex_product)],
        shop_with_cart [ex_line\<lparr>ci_quantity := 7\<rparr>]) \<and>
   update_item ex_user ''l1'' (Num 7) (shop_with_cart [ex_line\<lparr>ci_quantity := 4\<rparr>])
     = (Inl (Failure 400 ''Insufficient stock''), shop_with_cart [ex_line\<lparr>ci_quantity := 4\<rparr>])"
  by (simp add: ex_cart_defs update_item_def)






section \<open>Verification: reviews\<close>

lemma round1_near: "\<bar>round1 x - x\<bar> \<le> 1 / 20"
proof -
  define k where "k = \<lfloor>x * 10 + 1 / 2\<rfloor>"
  have "real_of_int k \<le> x * 10 + 1 / 2" and "x * 10 + 1 / 2 < real_of_int k + 1"
    unfolding k_def by linarith+
  then have "real_of_int k / 10 - x \<le> 1 / 20" and "- (1 / 20) \<le> real_of_int k / 10 - x"
    by linarith+
  then have "\<bar>real_of_int k / 10 - x\<bar> \<le> 1 / 20"
    by (rule abs_leI [OF _ minus_le_iff [THEN iffD1]]) 
  then show ?thesis
    by (simp only: round1_def k_def)
qed

lemma round1_tenths: "\<exists>k::int. round1 x = real_of_int k / 10"
  by (auto simp: round1_def)

lemma foldl_ratings:
  "foldl (\<lambda>sum r. sum + r_rating r) a rs = a + sum_list (map r_rating rs)"
  by (induction rs arbitrary: a) simp_all

lemma set_rating_reviews: "reviews (set_rating pid r n st) = reviews st"
  by (simp add: set_rating_def split: option.splits)

lemma set_rating_products:
  "products (set_rating pid r n st) =
     (case products st pid of
        None \<Rightarrow> products st
      | Some p \<Rightarrow> (products st)(pid \<mapsto> p\<lparr>rating := r, reviewCount := n\<rparr>))"
  by (simp add: set_rating_def split: option.splits)

lemma updateProductRating_eq:
  "updateProductRating pid st =
     set_rating pid (rating_of (product_ratings st pid)) (int (length (product_ratings st pid))) st"
  by (simp add: updateProductRating_def product_ratings_def rating_of_def mean_def round1_def
        js_round_def foldl_ratings Let_def)

lemma updateProductRating_reviews: "reviews (updateProductRating pid st) = reviews st"
  by (simp add: updateProductRating_eq set_rating_reviews)

lemma updateProductRating_exists:
  "(products (updateProductRating pid st) q = None) = (products st q = None)"
  by (simp add: updateProductRating_eq set_rating_products split: option.splits)

lemma updateProductRating_current: "rating_current (updateProductRating pid st) pid"
proof -
  have "product_ratings (updateProductRating pid st) pid = product_ratings st pid"
    by (simp add: product_ratings_def updateProductRating_reviews)
  then show ?thesis
    by (simp add: rating_current_def)
       (simp add: updateProductRating_eq set_rating_products split: option.splits)
qed

lemma find_findIndex:
  "findIndex P xs = Some i \<Longrightarrow> find P xs = Some (xs ! i)"
proof (induction xs arbitrary: i)
  case Nil
  then show ?case by simp
next
  case (Cons x xs)
  then show ?case by (cases "P x") auto
qed

lemma findIndex_find:
  "find P xs = Some x \<Longrightarrow> \<exists>i. findIndex P xs = Some i \<and> xs ! i = x \<and> i < length xs"
proof (induction xs)
  case Nil
  then show ?case by simp
next
  case (Cons y ys)
  then show ?case by (cases "P y") auto
qed

lemma filter_without_only:
  assumes "i < length xs" and "filter P xs = [xs ! i]"
  shows "filter P (take i xs @ drop (Suc i) xs) = []"
proof -
  from assms(1) have "xs = take i xs @ xs ! i # drop (Suc i) xs"
    by (rule id_take_nth_drop)
  then have "filter P xs = filter P (take i xs) @ filter P (xs ! i # drop (Suc i) xs)"
    by (metis filter_append)
  moreover from assms have "P (xs ! i)"
    by (metis filter_eq_ConsD)
  ultimately have "[xs ! i] = filter P (take i xs) @ xs ! i # filter P (drop (Suc i) xs)"
    using assms(2) by simp
  then have "filter P (take i xs) = [] \<and> filter P (drop (Suc i) xs) = []"
    by (cases "filter P (take i xs)") auto
  then show ?thesis by simp
qed

lemma create_review_duplicate:
  assumes "products st (rv_productId body) = Some p"
    and "\<exists>r\<in>set (reviews st). r_product r = rv_productId body \<and> r_user r = user_id u"
  shows "\<exists>e. create_review u body rid st = (Inl e, st) \<and> http_status e = 400"
proof -
  from assms(2) have "find (\<lambda>r. r_product r = rv_productId body \<and> r_user r = user_id u)
      (reviews st) \<noteq> None"
    by (auto simp: find_None_iff)
  with assms(1) show ?thesis
    by (auto simp: create_review_def)
qed

lemma create_review_success:
  assumes "create_review u body rid st = (Inr rv, st')"
  shows "reviews st' = reviews st @ [rv]" and "r_product rv = rv_productId body"
    and "r_user rv = user_id u" and "r_rating rv = rv_rating body"
    and "rating_current st' (r_product rv)" and "products st' (r_product rv) \<noteq> None"
    and "\<not> (\<exists>r\<in>set (reviews st). r_product r = rv_productId body \<and> r_user r = user_id u)"
proof -
  let ?rv = "\<lparr>r_id = rid, r_product = rv_productId body, r_user = user_id u,
      r_rating = rv_rating body,
      r_comment = (case rv_comment body of None \<Rightarrow> [] | Some c \<Rightarrow> c)\<rparr>"
  from assms have e: "products st (rv_productId body) \<noteq> None"
    and n: "find (\<lambda>r. r_product r = rv_productId body \<and> r_user r = user_id u) (reviews st) = None"
    and rv: "rv = ?rv"
    and st': "st' = updateProductRating (rv_productId body) (st\<lparr>reviews := reviews st @ [?rv]\<rparr>)"
    by (auto simp: create_review_def Let_def split: if_splits option.splits)
  from rv show "r_product rv = rv_productId body" "r_user rv = user_id u"
    "r_rating rv = rv_rating body"
    by simp_all
  from st' rv show "reviews st' = reviews st @ [rv]"
    by (simp add: updateProductRating_reviews)
  from st' rv show "rating_current st' (r_product rv)"
    by (simp add: updateProductRating_current)
  from st' rv e show "products st' (r_product rv) \<noteq> None"
    by (simp add: updateProductRating_exists)
  from n show "\<not> (\<exists>r\<in>set (reviews st). r_product r = rv_productId body \<and> r_user r = user_id u)"
    by (auto simp: find_None_iff)
qed

lemma update_review_success:
  assumes "update_review u rid nr nc st = (Inr rv, st')"
  shows "rating_current st' (r_product rv)" and "rv \<in> set (reviews st')"
    and "length (reviews st') = length (reviews st)"
proof -
  from assms obtain i where i: "findIndex (\<lambda>r. r_id r = rid) (reviews st) = Some i"
    and st': "st' = updateProductRating (r_product rv) (st\<lparr>reviews := (reviews st)[i := rv]\<rparr>)"
    by (auto simp: update_review_def Let_def split: if_splits option.splits)
  from findIndex_Some [OF i] have "i < length (reviews st)" by simp
  with st' show "rv \<in> set (reviews st')"
    by (simp add: updateProductRating_reviews set_update_memI)
  from st' show "rating_current st' (r_product rv)"
    by (simp add: updateProductRating_current)
  from st' show "length (reviews st') = length (reviews st)"
    by (simp add: updateProductRating_reviews)
qed

lemma delete_review_success:
  assumes "delete_review u rid st = (Inr (), st')"
  obtains i where "i < length (reviews st)"
    and "find (\<lambda>r. r_id r = rid) (reviews st) = Some (reviews st ! i)"
    and "reviews st' = take i (reviews st) @ drop (Suc i) (reviews st)"
    and "rating_current st' (r_product (reviews st ! i))"
    and "(products st' (r_product (reviews st ! i)) = None)
           = (products st (r_product (reviews st ! i)) = None)"
proof -
  from assms obtain i where i: "findIndex (\<lambda>r. r_id r = rid) (reviews st) = Some i"
    and st': "st' = updateProductRating (r_product (reviews st ! i))
        (st\<lparr>reviews := take i (reviews st) @ drop (Suc i) (reviews st)\<rparr>)"
    by (auto simp: delete_review_def Let_def split: if_splits option.splits)
  from findIndex_Some [OF i] have 1: "i < length (reviews st)" by simp
  from st' have 2: "reviews st' = take i (reviews st) @ drop (Suc i) (reviews st)"
    by (simp add: updateProductRating_reviews)
  from st' have 3: "rating_current st' (r_product (reviews st ! i))"
    by (simp add: updateProductRating_current)
  from st' have 4: "(products st' (r_product (reviews st ! i)) = None)
      = (products st (r_product (reviews st ! i)) = None)"
    by (simp add: updateProductRating_exists)
  from 1 find_findIndex [OF i] 2 3 4 show thesis by (rule that)
qed

lemma rating_currentD:
  assumes "rating_current st pid" and "products st pid \<noteq> None"
  shows "map_option rating (products st pid) = Some (rating_of (product_ratings st pid))"
    and "map_option reviewCount (products st pid) = Some (int (length (product_ratings st pid)))"
  using assms by (auto simp: rating_current_def)

text \<open>
  Claim C8, as amended.  Creating a review of an existing product for which the caller already has a
  review is rejected with 400 and the store unchanged.  A successful create appends the
  review, and after a successful create, update or delete the product of the review (when
  it exists) carries the rating of its reviews, the mean rounded to one decimal place, and
  their number as review count.  Deleting the only review of an existing product leaves it
  with rating 0 and review count 0.  The rating of a non-empty list of ratings is a
  multiple of one tenth at most 0.05 away from the mean.
\<close>

theorem review_rules:
  "(products st (rv_productId body) = Some p \<and>
    (\<exists>r\<in>set (reviews st). r_product r = rv_productId body \<and> r_user r = user_id u) \<longrightarrow>
      (\<exists>e. create_review u body rid st = (Inl e, st) \<and> http_status e = 400)) \<and>
   (create_review u body rid st = (Inr rv, st1) \<longrightarrow>
      reviews st1 = reviews st @ [rv] \<and> r_product rv = rv_productId body \<and>
      products st1 (r_product rv) \<noteq> None \<and> rating_current st1 (r_product rv)) \<and>
   (update_review u rid nr nc st = (Inr rv', st2) \<longrightarrow>
      rv' \<in> set (reviews st2) \<and> rating_current st2 (r_product rv')) \<and>
   (delete_review u rid st = (Inr (), st3) \<longrightarrow>
      (\<exists>doc. find (\<lambda>r. r_id r = rid) (reviews st) = Some doc \<and>
             length (reviews st3) + 1 = length (reviews st) \<and>
             rating_current st3 (r_product doc) \<and>
             (filter (\<lambda>r. r_product r = r_product doc) (reviews st) = [doc] \<and>
              products st (r_product doc) \<noteq> None \<longrightarrow>
                map_option rating (products st3 (r_product doc)) = Some 0 \<and>
                map_option reviewCount (products st3 (r_product doc)) = Some 0))) \<and>
   (rating_of [] = 0 \<and>
    (xs \<noteq> [] \<longrightarrow> \<bar>rating_of xs - mean xs\<bar> \<le> 1 / 20 \<and>
                 (\<exists>k::int. rating_of xs = real_of_int k / 10)))"
proof (intro conjI impI)
  assume "products st (rv_productId body) = Some p \<and>
    (\<exists>r\<in>set (reviews st). r_product r = rv_productId body \<and> r_user r = user_id u)"
  then show "\<exists>e. create_review u body rid st = (Inl e, st) \<and> http_status e = 400"
    using create_review_duplicate [of st body p u rid] by blast
next
  assume a: "create_review u body rid st = (Inr rv, st1)"
  note c = create_review_success [OF a]
  from c(1) show "reviews st1 = reviews st @ [rv]" .
  from c(2) show "r_product rv = rv_productId body" .
  from c(6) show "products st1 (r_product rv) \<noteq> None" .
  from c(5) show "rating_current st1 (r_product rv)" .
next
  assume a: "update_review u rid nr nc st = (Inr rv', st2)"
  from update_review_success [OF a]
  show "rv' \<in> set (reviews st2)" and "rating_current st2 (r_product rv')"
    by simp_all
next
  assume a: "delete_review u rid st = (Inr (), st3)"
  from delete_review_success [OF a] obtain i where
    i: "i < length (reviews st)"
    and f': "find (\<lambda>r. r_id r = rid) (reviews st) = Some (reviews st ! i)"
    and r: "reviews st3 = take i (reviews st) @ drop (Suc i) (reviews st)"
    and c': "rating_current st3 (r_product (reviews st ! i))"
    and e': "(products st3 (r_product (reviews st ! i)) = None)
              = (products st (r_product (reviews st ! i)) = None)"
    by blast
  define doc where "doc = reviews st ! i"
  have d: "reviews st ! i = doc" by (simp add: doc_def)
  from f' have f: "find (\<lambda>r. r_id r = rid) (reviews st) = Some doc" by (simp add: d)
  from c' have c: "rating_current st3 (r_product doc)" by (simp add: d)
  from e' have e: "(products st3 (r_product doc) = None) = (products st (r_product doc) = None)"
    by (simp add: d)
  from i r have l: "length (reviews st3) + 1 = length (reviews st)"
    by simp
  have "map_option rating (products st3 (r_product doc)) = Some 0 \<and>
      map_option reviewCount (products st3 (r_product doc)) = Some 0"
    if o: "filter (\<lambda>r. r_product r = r_product doc) (reviews st) = [doc]"
      and x: "products st (r_product doc) \<noteq> None"
  proof -
    from filter_without_only [of i "reviews st" "\<lambda>r. r_product r = r_product doc"] i d o r
    have "product_ratings st3 (r_product doc) = []"
      by (simp add: product_ratings_def)
    moreover from x e obtain p' where "products st3 (r_product doc) = Some p'"
      by auto
    ultimately show ?thesis
      using c by (simp add: rating_current_def rating_of_def)
  qed
  with f l c show "\<exists>doc. find (\<lambda>r. r_id r = rid) (reviews st) = Some doc \<and>
             length (reviews st3) + 1 = length (reviews st) \<and>
             rating_current st3 (r_product doc) \<and>
             (filter (\<lambda>r. r_product r = r_product doc) (reviews st) = [doc] \<and>
              products st (r_product doc) \<noteq> None \<longrightarrow>
                map_option rating (products st3 (r_product doc)) = Some 0 \<and>
                map_option reviewCount (products st3 (r_product doc)) = Some 0)"
    by (intro exI [of _ doc]) simp
next
  show "rating_of [] = 0"
    by (simp add: rating_of_def)
next
  assume "xs \<noteq> []"
  then have "rating_of xs = round1 (mean xs)"
    by (simp add: rating_of_def)
  then show "\<bar>rating_of xs - mean xs\<bar> \<le> 1 / 20"
    by (simp only: round1_near)
next
  assume "xs \<noteq> []"
  then have "rating_of xs = round1 (mean xs)"
    by (simp add: rating_of_def)
  then show "\<exists>k::int. rating_of xs = real_of_int k / 10"
    by (simp only: round1_tenths)
qed

theorem review_rules_witness:
  "create_review ex_user (review_request 5) ''r9'' (review_shop [ex_review ''r1'' ''u1'' 4])
     = (Inl (Failure 400 ''You have already reviewed this product''),
        review_shop [ex_review ''r1'' ''u1'' 4]) \<and>
   map_option rating (products (snd (create_review ex_user (review_request 4) ''r1''
       (review_shop [ex_review ''r2'' ''u2'' 5, ex_review ''r3'' ''u3'' 4]))) ''p1'')
     = Some (43 / 10) \<and>
   map_option reviewCount (products (snd (create_review ex_user (review_request 4) ''r1''
       (review_shop [ex_review ''r2'' ''u2'' 5, ex_review ''r3'' ''u3'' 4]))) ''p1'')
     = Some 3 \<and>
   map_option rating (products (snd (update_review ex_user ''r1'' (Some 2) None
       (review_shop [ex_review ''r1'' ''u1'' 4, ex_review ''r2'' ''u2'' 5]))) ''p1'')
     = Some (35 / 10) \<and>
   map_option rating (products (review_shop [ex_review ''r1'' ''u1'' 4]) ''p1'') = Some 0 \<and>
   map_option rating (products (snd (delete_review ex_user ''r1''
       (snd (create_review ex_user (review_request 4) ''r1'' (review_shop []))))) ''p1'')
     = Some 0 \<and>
   map_option rating (products
       (snd (create_review ex_user (review_request 4) ''r1'' (review_shop []))) ''p1'')
     = Some 4"
proof -
  let ?dup = "review_shop [ex_review ''r1'' ''u1'' 4]"
  have p: "products (review_shop rs) (rv_productId (review_request r)) = Some ex_product" for rs r
    by (simp add: review_shop_def review_request_def ex_shop_def)
  have u: "user_id ex_user = ''u1''"
    by (simp add: ex_user_def)
  have rq: "rv_productId (review_request r) = ''p1''" for r
    by (simp add: review_request_def)
  \<comment> \<open>a second review of the same user\<close>
  have h1: "products ?dup (rv_productId (review_request 5)) = Some ex_product \<and>
      (\<exists>r\<in>set (reviews ?dup).
          r_product r = rv_productId (review_request 5) \<and> r_user r = user_id ex_user)"
    by (simp add: p) (simp add: review_shop_def review_request_def ex_review_def u)
  from review_rules [THEN conjunct1, rule_format, OF h1, of "''r9''"]
  obtain e where "create_review ex_user (review_request 5) ''r9'' ?dup = (Inl e, ?dup)"
    by blast
  moreover have "fst (create_review ex_user (review_request 5) ''r9'' ?dup)
      = Inl (Failure 400 ''You have already reviewed this product'')"
    by (simp add: create_review_def review_request_def review_shop_def ex_shop_def
          ex_review_def ex_user_def)
  ultimately have c1: "create_review ex_user (review_request 5) ''r9'' ?dup
     = (Inl (Failure 400 ''You have already reviewed this product''), ?dup)"
    by simp
  \<comment> \<open>a third review of the product\<close>
  let ?two = "review_shop [ex_review ''r2'' ''u2'' 5, ex_review ''r3'' ''u3'' 4]"
  let ?st1 = "snd (create_review ex_user (review_request 4) ''r1'' ?two)"
  have "fst (create_review ex_user (review_request 4) ''r1'' ?two) = Inr (ex_review ''r1'' ''u1'' 4)"
    by (simp add: create_review_def review_request_def review_shop_def ex_shop_def
          ex_review_def ex_user_def Let_def)
  then have h2: "create_review ex_user (review_request 4) ''r1'' ?two
      = (Inr (ex_review ''r1'' ''u1'' 4), ?st1)"
    by (rule pair_fst_snd)
  note c = review_rules [THEN conjunct2, THEN conjunct1, rule_format, OF h2]
  have pr: "r_product (ex_review ''r1'' ''u1'' 4) = ''p1''"
    by (simp add: ex_review_def)
  from c have "reviews ?st1 = reviews ?two @ [ex_review ''r1'' ''u1'' 4]"
    by (rule conjunct1)
  then have r1: "product_ratings ?st1 ''p1'' = [5, 4, 4]"
    by (simp add: product_ratings_def review_shop_def ex_review_def)
  have v1: "rating_of [5, 4, 4] = 43 / 10" and n1: "int (length [5, 4, 4 :: int]) = 3"
    by (simp_all add: rating_of_def round1_def mean_def)
  from c have k1: "rating_current ?st1 ''p1''" and e1: "products ?st1 ''p1'' \<noteq> None"
    by (simp_all add: pr rq)
  from rating_currentD(1) [OF k1 e1]
  have c2: "map_option rating (products ?st1 ''p1'') = Some (43 / 10)"
    by (simp only: r1 v1)
  from rating_currentD(2) [OF k1 e1]
  have c3: "map_option reviewCount (products ?st1 ''p1'') = Some 3"
    by (simp only: r1 n1)
  \<comment> \<open>an update of the rating\<close>
  let ?upd = "review_shop [ex_review ''r1'' ''u1'' 4, ex_review ''r2'' ''u2'' 5]"
  let ?st2 = "snd (update_review ex_user ''r1'' (Some 2) None ?upd)"
  have "fst (update_review ex_user ''r1'' (Some 2) None ?upd) = Inr (ex_review ''r1'' ''u1'' 2)"
    by (simp add: update_review_def review_shop_def ex_review_def ex_user_def Let_def)
  then have h3: "update_review ex_user ''r1'' (Some 2) None ?upd
      = (Inr (ex_review ''r1'' ''u1'' 2), ?st2)"
    by (rule pair_fst_snd)
  from review_rules [THEN conjunct2, THEN conjunct2, THEN conjunct1, rule_format, OF h3]
  have k2: "rating_current ?st2 ''p1''"
    by (simp add: ex_review_def)
  have e2: "products ?st2 ''p1'' \<noteq> None"
    by (simp add: update_review_def review_shop_def ex_review_def ex_user_def Let_def
          updateProductRating_exists ex_shop_def)
  have r2: "product_ratings ?st2 ''p1'' = [2, 5]"
    by (simp add: update_review_def review_shop_def ex_review_def ex_user_def Let_def
          updateProductRating_reviews product_ratings_def)
  have v2: "rating_of [2, 5] = 35 / 10"
    by (simp add: rating_of_def round1_def mean_def)
  from rating_currentD(1) [OF k2 e2]
  have c4: "map_option rating (products ?st2 ''p1'') = Some (35 / 10)"
    by (simp only: r2 v2)
  \<comment> \<open>the only review is created, then deleted\<close>
  let ?sta = "snd (create_review ex_user (review_request 4) ''r1'' (review_shop []))"
  have "fst (create_review ex_user (review_request 4) ''r1'' (review_shop []))
      = Inr (ex_review ''r1'' ''u1'' 4)"
    by (simp add: create_review_def review_request_def review_shop_def ex_shop_def
          ex_review_def ex_user_def Let_def)
  then have h4: "create_review ex_user (review_request 4) ''r1'' (review_shop [])
      = (Inr (ex_review ''r1'' ''u1'' 4), ?sta)"
    by (rule pair_fst_snd)
  note a = review_rules [THEN conjunct2, THEN conjunct1, rule_format, OF h4]
  from a have ra: "reviews ?sta = [ex_review ''r1'' ''u1'' 4]"
    by (simp add: review_shop_def)
  from a have ca: "rating_current ?sta ''p1''" and ea: "products ?sta ''p1'' \<noteq> None"
    by (simp_all add: pr rq)
  have r3: "product_ratings ?sta ''p1'' = [4]"
    by (simp add: product_ratings_def ra ex_review_def)
  have v3: "rating_of [4] = 4"
    by (simp add: rating_of_def round1_def mean_def)
  from rating_currentD(1) [OF ca ea]
  have c7: "map_option rating (products ?sta ''p1'') = Some 4"
    by (simp only: r3 v3)
  let ?st3 = "snd (delete_review ex_user ''r1'' ?sta)"
  have "fst (delete_review ex_user ''r1'' ?sta) = Inr ()"
    by (simp add: delete_review_def ra ex_review_def u Let_def)
  then have h5: "delete_review ex_user ''r1'' ?sta = (Inr (), ?st3)"
    by (rule pair_fst_snd)
  from review_rules [THEN conjunct2, THEN conjunct2, THEN conjunct2, THEN conjunct1,
      rule_format, OF h5]
  obtain doc where f: "find (\<lambda>r. r_id r = ''r1'') (reviews ?sta) = Some doc"
    and o: "filter (\<lambda>r. r_product r = r_product doc) (reviews ?sta) = [doc] \<and>
              products ?sta (r_product doc) \<noteq> None \<longrightarrow>
                map_option rating (products ?st3 (r_product doc)) = Some 0 \<and>
                map_option reviewCount (products ?st3 (r_product doc)) = Some 0"
    by blast
  from f have d: "doc = ex_review ''r1'' ''u1'' 4"
    by (simp add: ra ex_review_def)
  have "filter (\<lambda>r. r_product r = r_product doc) (reviews ?sta) = [doc] \<and>
      products ?sta (r_product doc) \<noteq> None"
    using ea by (simp add: d ra pr)
  with o have c6: "map_option rating (products ?st3 ''p1'') = Some 0"
    by (simp add: d pr)
  have c5: "map_option rating (products ?dup ''p1'') = Some 0"
    by (simp add: review_shop_def ex_shop_def ex_product_def)
  from c1 c2 c3 c4 c5 c6 c7 show ?thesis
    by (intro conjI)
qed

text \<open>
  Claim C8 as stated says that a create for a (product, user) pair that already has a review
  is answered with 400.  Deleting a product leaves its reviews, and the handler looks the
  product up before it looks for the caller's review: the reply is 404.
\<close>

theorem second_review_of_deleted_product_gets_404:
  "reviews orphan_review_shop = [ex_review ''r1'' ''u1'' 4] \<and>
   r_product (ex_review ''r1'' ''u1'' 4) = rv_productId (review_request 5) \<and>
   r_user (ex_review ''r1'' ''u1'' 4) = user_id ex_user \<and>
   create_review ex_user (review_request 5) ''r9'' orphan_review_shop
     = (Inl (Failure 404 ''Product not found''), orphan_review_shop)"
  by (simp add: create_review_def orphan_review_shop_def review_shop_def review_request_def
        ex_review_def ex_user_def)

end
